theory Spec2Isabelle
  imports Main
begin

section \<open>JavaScript values, property reads and completions\<close>

text \<open>
  The loader of \<^verbatim>\<open>packages/common/src/load-module.ts\<close> handles three kinds of
  run-time values: what a module exports, what a failed load throws, and the namespace
  of a dynamically imported module. All three are JavaScript values. An object is the
  list of its own data properties; a function is an object that is callable, so it
  carries properties as well. A property that an object inherits, such as the
  \<^verbatim>\<open>then\<close> of a native promise, is listed with its own. Getters and proxies are outside
  the model. Numbers are integers plus \<^verbatim>\<open>NaN\<close>.
\<close>

datatype jsval =
    JUndefined
  | JNull
  | JBool bool
  | JNum int
  | JNaN
  | JStr string
  | JObj "(string \<times> jsval) list"
  | JFun string "(string \<times> jsval) list"

type_synonym props = "(string \<times> jsval) list"

text \<open>
  A completion is either a thrown value (\<open>Inl\<close>) or a returned value (\<open>Inr\<close>). For an
  awaited promise and for the promise of the async function \<^verbatim>\<open>loadModule\<close> itself,
  \<open>Inl\<close> is its rejection and \<open>Inr\<close> its fulfilment. JavaScript can throw any value,
  so the thrown side is a \<^typ>\<open>jsval\<close>.
\<close>

type_synonym 'a completion = "jsval + 'a"

text \<open>\<^verbatim>\<open>ToBoolean\<close>, which decides the \<^verbatim>\<open>||\<close> of the TypeScript branch.\<close>

fun truthy :: "jsval \<Rightarrow> bool" where
  "truthy JUndefined = False"
| "truthy JNull = False"
| "truthy (JBool b) = b"
| "truthy (JNum n) = (n \<noteq> 0)"
| "truthy JNaN = False"
| "truthy (JStr s) = (s \<noteq> [])"
| "truthy (JObj ps) = True"
| "truthy (JFun f ps) = True"

text \<open>Reading a property of a property list: a missing key reads as \<^verbatim>\<open>undefined\<close>.\<close>

definition propOf :: "props \<Rightarrow> string \<Rightarrow> jsval" where
  "propOf ps k = (case map_of ps k of None \<Rightarrow> JUndefined | Some v \<Rightarrow> v)"

text \<open>The \<^verbatim>\<open>TypeError\<close> raised by a property read on \<^verbatim>\<open>null\<close> or \<^verbatim>\<open>undefined\<close>.\<close>

definition typeError :: jsval where
  "typeError = JObj [(''name'', JStr ''TypeError'')]"

text \<open>
  The member expression \<^verbatim>\<open>v.k\<close>. It throws on \<^verbatim>\<open>null\<close> and \<^verbatim>\<open>undefined\<close>; on the
  other primitives it reads the wrapper's prototype, which defines neither of the two
  keys the loader reads (\<^verbatim>\<open>default\<close> and \<^verbatim>\<open>code\<close>).
\<close>

fun getField :: "string \<Rightarrow> jsval \<Rightarrow> jsval completion" where
  "getField k JUndefined = Inl typeError"
| "getField k JNull = Inl typeError"
| "getField k (JObj ps) = Inr (propOf ps k)"
| "getField k (JFun f ps) = Inr (propOf ps k)"
| "getField k v = Inr JUndefined"

text \<open>
  A thenable is an object or a function whose \<^verbatim>\<open>then\<close> property is a function. A promise
  that is resolved with a thenable follows it instead of being fulfilled with it.
\<close>

definition isThenable :: "jsval \<Rightarrow> bool" where
  "isThenable v = (case getField ''then'' v of Inr (JFun f ps) \<Rightarrow> True | _ \<Rightarrow> False)"

section \<open>The collaborators of the loader\<close>

text \<open>
  \<^verbatim>\<open>loadModule\<close> calls five things it does not define: \<^verbatim>\<open>path.extname\<close>,
  \<^verbatim>\<open>url.pathToFileURL\<close>, \<^verbatim>\<open>require\<close>, the dynamic \<^verbatim>\<open>import()\<close> and
  \<^verbatim>\<open>registerTsProject\<close> of \<^verbatim>\<open>./register-ts-project\<close>. Being an async function, it
  also hands the value it returns to the promise machinery, which calls the \<^verbatim>\<open>then\<close>
  method of a returned thenable: \<open>thenSettles\<close> is how the promise settles by following
  that thenable. All six are parameters of the model.
  The state they act on has two parts: the registrar's state \<open>'r\<close> and the state of the
  module system \<open>'m\<close> (module cache, file system). \<^verbatim>\<open>require\<close>, \<^verbatim>\<open>import()\<close> and a
  \<^verbatim>\<open>then\<close> method read the
  registrar's state, since a registration decides whether a TypeScript file can be
  loaded, and change only the module system. \<^verbatim>\<open>registerTsProject\<close> returns the
  function that undoes the registration, as the source's
  \<^verbatim>\<open>const unregisterTsProject = registerTsProject(tsConfig)\<close> has it; both it and the
  function it returns are taken to complete normally. An ES module namespace is always
  an object, so the awaited \<^verbatim>\<open>import()\<close> gives a property list (a module that exports
  a function named \<^verbatim>\<open>then\<close>, which the \<^verbatim>\<open>await\<close> would follow, is outside the model). A load that never settles
  is outside the model: every primitive yields a completion.
\<close>

record ('r, 'm) env =
  extname :: "string \<Rightarrow> string"
  pathToFileURL :: "string \<Rightarrow> string"
  require :: "string \<Rightarrow> 'r \<Rightarrow> 'm \<Rightarrow> jsval completion \<times> 'm"
  dynamicImport :: "string \<Rightarrow> 'r \<Rightarrow> 'm \<Rightarrow> props completion \<times> 'm"
  registerTsProject :: "string \<Rightarrow> 'r \<Rightarrow> ('r \<Rightarrow> 'r) \<times> 'r"
  thenSettles :: "jsval \<Rightarrow> 'r \<Rightarrow> 'm \<Rightarrow> jsval completion \<times> 'm"

text \<open>The calls the loader makes to its collaborators, in the order it makes them.\<close>

datatype call =
    CallRegister string
  | CallUnregister
  | CallRequire string
  | CallImport string

record ('r, 'm) world =
  calls :: "call list"
  registrar :: 'r
  modules :: 'm

section \<open>The loader\<close>

text \<open>\<^verbatim>\<open>require(modulePath)\<close>, recorded.\<close>

definition requireModule ::
  "('r, 'm) env \<Rightarrow> string \<Rightarrow> ('r, 'm) world \<Rightarrow> jsval completion \<times> ('r, 'm) world" where
  "requireModule env p w =
     (case require env p (registrar w) (modules w) of
        (r, m') \<Rightarrow> (r, w\<lparr>calls := calls w @ [CallRequire p], modules := m'\<rparr>))"

text \<open>\<^verbatim>\<open>loadEsmModule(modulePath)\<close>: the dynamic import, awaited by its caller.\<close>

definition loadEsmModule ::
  "('r, 'm) env \<Rightarrow> string \<Rightarrow> ('r, 'm) world \<Rightarrow> props completion \<times> ('r, 'm) world" where
  "loadEsmModule env u w =
     (case dynamicImport env u (registrar w) (modules w) of
        (r, m') \<Rightarrow> (r, w\<lparr>calls := calls w @ [CallImport u], modules := m'\<rparr>))"

text \<open>
  The expression
  \<^verbatim>\<open>(await loadEsmModule<{ default: T }>(url.pathToFileURL(modulePath))).default\<close>,
  which the source writes three times.
\<close>

definition esmDefault ::
  "('r, 'm) env \<Rightarrow> string \<Rightarrow> ('r, 'm) world \<Rightarrow> jsval completion \<times> ('r, 'm) world" where
  "esmDefault env p w =
     (case loadEsmModule env (pathToFileURL env p) w of
        (Inl e, w') \<Rightarrow> (Inl e, w')
      | (Inr ns, w') \<Rightarrow> (Inr (propOf ns ''default''), w'))"

text \<open>
  The two \<^verbatim>\<open>catch (e: any)\<close> blocks are the same text: read \<^verbatim>\<open>e.code\<close> (which itself
  throws when \<^verbatim>\<open>e\<close> is \<^verbatim>\<open>null\<close> or \<^verbatim>\<open>undefined\<close>), fall back to the dynamic import on
  \<^verbatim>\<open>ERR_REQUIRE_ESM\<close>, rethrow \<^verbatim>\<open>e\<close> otherwise.
\<close>

definition catchRequire ::
  "('r, 'm) env \<Rightarrow> string \<Rightarrow> jsval \<Rightarrow> ('r, 'm) world \<Rightarrow> jsval completion \<times> ('r, 'm) world" where
  "catchRequire env p e w =
     (case getField ''code'' e of
        Inl t \<Rightarrow> (Inl t, w)
      | Inr c \<Rightarrow> if c = JStr ''ERR_REQUIRE_ESM'' then esmDefault env p w else (Inl e, w))"

text \<open>
  The \<^verbatim>\<open>try\<close> block of the \<^verbatim>\<open>.ts\<close> case:
  \<^verbatim>\<open>return require(modulePath).default || require(modulePath);\<close>
  The right operand is evaluated, by a second call of \<^verbatim>\<open>require\<close>, only when the left
  one is falsy.
\<close>

definition tsTry ::
  "('r, 'm) env \<Rightarrow> string \<Rightarrow> ('r, 'm) world \<Rightarrow> jsval completion \<times> ('r, 'm) world" where
  "tsTry env p w =
     (case requireModule env p w of
        (Inl e, w1) \<Rightarrow> (Inl e, w1)
      | (Inr m, w1) \<Rightarrow>
          (case getField ''default'' m of
             Inl t \<Rightarrow> (Inl t, w1)
           | Inr d \<Rightarrow> if truthy d then (Inr d, w1) else requireModule env p w1))"

text \<open>The \<^verbatim>\<open>try\<close> and \<^verbatim>\<open>catch\<close> of the \<^verbatim>\<open>.ts\<close> case, without the registration around them.\<close>

definition tsTryCatch ::
  "('r, 'm) env \<Rightarrow> string \<Rightarrow> ('r, 'm) world \<Rightarrow> jsval completion \<times> ('r, 'm) world" where
  "tsTryCatch env p w =
     (case tsTry env p w of
        (Inl e, w1) \<Rightarrow> catchRequire env p e w1
      | (Inr v, w1) \<Rightarrow> (Inr v, w1))"

text \<open>
  The whole \<^verbatim>\<open>.ts\<close> case: register, run the \<^verbatim>\<open>try\<close>/\<^verbatim>\<open>catch\<close>, and call the returned
  function in \<^verbatim>\<open>finally\<close>, which keeps the completion of the block.
\<close>

definition tsBranch ::
  "('r, 'm) env \<Rightarrow> string \<Rightarrow> string \<Rightarrow> ('r, 'm) world \<Rightarrow> jsval completion \<times> ('r, 'm) world" where
  "tsBranch env p tsConfig w =
     (case registerTsProject env tsConfig (registrar w) of
        (unregisterTsProject, r1) \<Rightarrow>
          (case tsTryCatch env p (w\<lparr>calls := calls w @ [CallRegister tsConfig], registrar := r1\<rparr>) of
             (res, w2) \<Rightarrow>
               (res, w2\<lparr>calls := calls w2 @ [CallUnregister],
                        registrar := unregisterTsProject (registrar w2)\<rparr>)))"

text \<open>The \<^verbatim>\<open>default:\<close> case: \<^verbatim>\<open>return require(modulePath)\<close> in a \<^verbatim>\<open>try\<close>, and the same \<^verbatim>\<open>catch\<close>.\<close>

definition defaultBranch ::
  "('r, 'm) env \<Rightarrow> string \<Rightarrow> ('r, 'm) world \<Rightarrow> jsval completion \<times> ('r, 'm) world" where
  "defaultBranch env p w =
     (case requireModule env p w of
        (Inl e, w1) \<Rightarrow> catchRequire env p e w1
      | (Inr v, w1) \<Rightarrow> (Inr v, w1))"

text \<open>
  The body of \<^verbatim>\<open>loadModule(modulePath, tsConfig)\<close>: the \<^verbatim>\<open>switch\<close> compares the result
  of \<^verbatim>\<open>path.extname\<close> with the three literals by strict equality. Its completion is
  what the body throws or the operand of the \<^verbatim>\<open>return\<close> it reaches.
\<close>

definition loadModuleBody ::
  "('r, 'm) env \<Rightarrow> string \<Rightarrow> string \<Rightarrow> ('r, 'm) world \<Rightarrow> jsval completion \<times> ('r, 'm) world" where
  "loadModuleBody env modulePath tsConfig w =
     (let ext = extname env modulePath in
      if ext = ''.mjs'' then esmDefault env modulePath w
      else if ext = ''.cjs'' then requireModule env modulePath w
      else if ext = ''.ts'' then tsBranch env modulePath tsConfig w
      else defaultBranch env modulePath w)"

text \<open>
  Resolving a promise with a value: a thenable is followed, any other value fulfils the
  promise.
\<close>

definition resolvePromise ::
  "('r, 'm) env \<Rightarrow> jsval \<Rightarrow> ('r, 'm) world \<Rightarrow> jsval completion \<times> ('r, 'm) world" where
  "resolvePromise env v w =
     (if isThenable v
      then (case thenSettles env v (registrar w) (modules w) of
              (r, m') \<Rightarrow> (r, w\<lparr>modules := m'\<rparr>))
      else (Inr v, w))"

text \<open>
  What \<^verbatim>\<open>async\<close> makes of the completion of a function body: a thrown value rejects the
  promise, a returned value resolves it. No \<^verbatim>\<open>return\<close> of the source awaits its operand,
  so the resolution happens after the \<^verbatim>\<open>finally\<close> block and outside every \<^verbatim>\<open>catch\<close>.
\<close>

definition asyncReturn ::
  "('r, 'm) env \<Rightarrow> jsval completion \<times> ('r, 'm) world \<Rightarrow> jsval completion \<times> ('r, 'm) world" where
  "asyncReturn env rw =
     (case rw of
        (Inl e, w) \<Rightarrow> (Inl e, w)
      | (Inr v, w) \<Rightarrow> resolvePromise env v w)"

text \<open>
  \<^verbatim>\<open>export async function loadModule<T>(modulePath: string, tsConfig: string): Promise<T>\<close>.
  The first component is how the promise that the call returns settles.
\<close>

definition loadModule ::
  "('r, 'm) env \<Rightarrow> string \<Rightarrow> string \<Rightarrow> ('r, 'm) world \<Rightarrow> jsval completion \<times> ('r, 'm) world" where
  "loadModule env modulePath tsConfig w = asyncReturn env (loadModuleBody env modulePath tsConfig w)"

section \<open>Vocabulary for the statements\<close>

text \<open>
  The world in which the \<^verbatim>\<open>try\<close> block of a branch starts: for a \<^verbatim>\<open>.ts\<close> path the
  project has just been registered, for any other path nothing has happened yet.
\<close>

definition tryWorld ::
  "('r, 'm) env \<Rightarrow> string \<Rightarrow> string \<Rightarrow> ('r, 'm) world \<Rightarrow> ('r, 'm) world" where
  "tryWorld env p tsConfig w =
     (if extname env p = ''.ts''
      then w\<lparr>calls := calls w @ [CallRegister tsConfig],
             registrar := snd (registerTsProject env tsConfig (registrar w))\<rparr>
      else w)"

text \<open>
  The \<^verbatim>\<open>try\<close> block of the \<^verbatim>\<open>.ts\<close> case and of the \<^verbatim>\<open>default:\<close> case, by extension.
\<close>

definition tryBlock ::
  "('r, 'm) env \<Rightarrow> string \<Rightarrow> ('r, 'm) world \<Rightarrow> jsval completion \<times> ('r, 'm) world" where
  "tryBlock env p w = (if extname env p = ''.ts'' then tsTry env p w else requireModule env p w)"

text \<open>The calls that close a branch after its \<^verbatim>\<open>try\<close>/\<^verbatim>\<open>catch\<close>: the \<^verbatim>\<open>finally\<close> of \<^verbatim>\<open>.ts\<close>.\<close>

definition finallyCalls :: "('r, 'm) env \<Rightarrow> string \<Rightarrow> call list" where
  "finallyCalls env p = (if extname env p = ''.ts'' then [CallUnregister] else [])"

text \<open>
  What \<^verbatim>\<open>finally\<close> does to the world \<open>w2\<close> in which the \<^verbatim>\<open>try\<close>/\<^verbatim>\<open>catch\<close> of a branch
  ended, for a call that started in \<open>w\<close>: the \<^verbatim>\<open>.ts\<close> case calls the function that
  \<^verbatim>\<open>registerTsProject\<close> returned, the \<^verbatim>\<open>default:\<close> case has no \<^verbatim>\<open>finally\<close>.
\<close>

definition closeBranch ::
  "('r, 'm) env \<Rightarrow> string \<Rightarrow> string \<Rightarrow> ('r, 'm) world \<Rightarrow> ('r, 'm) world \<Rightarrow> ('r, 'm) world" where
  "closeBranch env p tsConfig w w2 =
     (if extname env p = ''.ts''
      then w2\<lparr>calls := calls w2 @ [CallUnregister],
              registrar := fst (registerTsProject env tsConfig (registrar w)) (registrar w2)\<rparr>
      else w2)"

text \<open>\<^verbatim>\<open>ns.default\<close> of a fulfilled import, the rejection of a rejected one.\<close>

definition defaultOf :: "props completion \<Rightarrow> jsval completion" where
  "defaultOf r = (case r of Inl e \<Rightarrow> Inl e | Inr ns \<Rightarrow> Inr (propOf ns ''default''))"

text \<open>
  The \<^verbatim>\<open>.ts\<close> case with its registration and deregistration removed, as an async
  function of its own: the \<^verbatim>\<open>try\<close> and \<^verbatim>\<open>catch\<close> blocks, run in the world of the call.
\<close>

definition tsWithoutRegistration ::
  "('r, 'm) env \<Rightarrow> string \<Rightarrow> ('r, 'm) world \<Rightarrow> jsval completion \<times> ('r, 'm) world" where
  "tsWithoutRegistration env p w = asyncReturn env (tsTryCatch env p w)"



section \<open>A sample environment\<close>

text \<open>
  A small module system to run the loader on. The registrar holds the list of active
  project descriptors; a TypeScript file loads only while one is registered. The state
  of the module system counts the loads. The one thenable, \<open>sample_promise\<close>, settles
  with an object. \<open>sample_extname\<close> takes the text from the last
  dot on, which is what \<^verbatim>\<open>path.extname\<close> gives on the paths used here.
\<close>

definition sample_extname :: "string \<Rightarrow> string" where
  "sample_extname p =
     (if CHR ''.'' \<in> set p then CHR ''.'' # rev (takeWhile (\<lambda>c. c \<noteq> CHR ''.'') (rev p)) else [])"

definition errorWithCode :: "string \<Rightarrow> jsval" where
  "errorWithCode c = JObj [(''name'', JStr ''Error''), (''code'', JStr c)]"

definition sample_promise :: jsval where
  "sample_promise = JObj [(''then'', JFun ''then'' [])]"

definition sample_require :: "string \<Rightarrow> string list \<Rightarrow> nat \<Rightarrow> jsval completion \<times> nat" where
  "sample_require p r m =
     (if p = ''app.config.ts'' then
        (if r = [] then Inl (JObj [(''name'', JStr ''SyntaxError'')])
         else Inr (JObj [(''default'', JObj [(''port'', JNum 4200)])]))
      else if p = ''zero.ts'' then Inr (JObj [(''default'', JNum 0)])
      else if p = ''named.ts'' then Inr (JObj [(''blah'', JNum 1)])
      else if p = ''esm.ts'' \<or> p = ''esm.js'' \<or> p = ''bare.js'' \<or> p = ''later.js''
        then Inl (errorWithCode ''ERR_REQUIRE_ESM'')
      else if p = ''later.cjs'' then Inr sample_promise
      else if p = ''plugin.cjs'' \<or> p = ''plugin.js'' then Inr (JObj [(''default'', JNum 5)])
      else if p = ''null.js'' then Inl JNull
      else Inl (errorWithCode ''MODULE_NOT_FOUND''),
      Suc m)"

definition sample_import :: "string \<Rightarrow> string list \<Rightarrow> nat \<Rightarrow> props completion \<times> nat" where
  "sample_import u r m =
     (if u = ''file:///esm.js'' \<or> u = ''file:///esm.ts'' then Inr [(''default'', JNum 7)]
      else if u = ''file:///conf.mjs'' then Inr [(''default'', JStr ''conf'')]
      else if u = ''file:///named.mjs'' \<or> u = ''file:///bare.js'' then Inr [(''helper'', JNum 1)]
      else if u = ''file:///later.mjs'' \<or> u = ''file:///later.js''
        then Inr [(''default'', sample_promise)]
      else Inl (errorWithCode ''ERR_MODULE_NOT_FOUND''),
      Suc m)"

definition sample_register :: "string \<Rightarrow> string list \<Rightarrow> (string list \<Rightarrow> string list) \<times> string list" where
  "sample_register c r = (remove1 c, c # r)"

definition sample_then :: "jsval \<Rightarrow> string list \<Rightarrow> nat \<Rightarrow> jsval completion \<times> nat" where
  "sample_then v r m =
     (if v = sample_promise then Inr (JObj [(''port'', JNum 1)]) else Inl (JStr ''rejected''), m)"

definition sample_env :: "(string list, nat) env" where
  "sample_env =
     \<lparr>extname = sample_extname,
      pathToFileURL = (\<lambda>p. ''file:///'' @ p),
      require = sample_require,
      dynamicImport = sample_import,
      registerTsProject = sample_register,
      thenSettles = sample_then\<rparr>"

definition w0 :: "(string list, nat) world" where
  "w0 = \<lparr>calls = [], registrar = [], modules = 0\<rparr>"

section \<open>Basic facts about the steps\<close>

lemmas sample_defs =
  sample_env_def sample_extname_def sample_require_def sample_import_def sample_register_def
  sample_then_def sample_promise_def w0_def errorWithCode_def

lemmas loader_defs =
  loadModule_def asyncReturn_def resolvePromise_def isThenable_def loadModuleBody_def
  tsWithoutRegistration_def tsBranch_def tsTryCatch_def tsTry_def defaultBranch_def catchRequire_def
  esmDefault_def loadEsmModule_def requireModule_def tryWorld_def tryBlock_def
  finallyCalls_def defaultOf_def propOf_def typeError_def Let_def

lemma requireModule_facts:
  "fst (requireModule env p w) = fst (require env p (registrar w) (modules w))"
  "calls (snd (requireModule env p w)) = calls w @ [CallRequire p]"
  "registrar (snd (requireModule env p w)) = registrar w"
  "modules (snd (requireModule env p w)) = snd (require env p (registrar w) (modules w))"
  by (simp_all add: requireModule_def split: prod.splits)

lemma esmDefault_facts:
  "fst (esmDefault env p w) =
     defaultOf (fst (dynamicImport env (pathToFileURL env p) (registrar w) (modules w)))"
  "calls (snd (esmDefault env p w)) = calls w @ [CallImport (pathToFileURL env p)]"
  "registrar (snd (esmDefault env p w)) = registrar w"
  by (simp_all add: esmDefault_def loadEsmModule_def defaultOf_def split: prod.splits sum.splits)

lemma catchRequire_rethrow:
  assumes "getField ''code'' e = Inr c" and "c \<noteq> JStr ''ERR_REQUIRE_ESM''"
  shows "catchRequire env p e w = (Inl e, w)"
  using assms by (simp add: catchRequire_def)

lemma catchRequire_fallback:
  assumes "getField ''code'' e = Inr (JStr ''ERR_REQUIRE_ESM'')"
  shows "catchRequire env p e w = esmDefault env p w"
  using assms by (simp add: catchRequire_def)

lemma catchRequire_frame:
  "registrar (snd (catchRequire env p e w)) = registrar w"
  "calls (snd (catchRequire env p e w)) = calls w \<or>
   calls (snd (catchRequire env p e w)) = calls w @ [CallImport (pathToFileURL env p)]"
  by (simp_all add: catchRequire_def esmDefault_facts split: sum.splits)

lemma tsTry_frame:
  "registrar (snd (tsTry env p w)) = registrar w"
  "calls (snd (tsTry env p w)) = calls w @ [CallRequire p] \<or>
   calls (snd (tsTry env p w)) = calls w @ [CallRequire p, CallRequire p]"
proof -
  obtain r w1 where r: "requireModule env p w = (r, w1)"
    by (cases "requireModule env p w")
  have w1: "registrar w1 = registrar w" "calls w1 = calls w @ [CallRequire p]"
    using requireModule_facts(2,3) [of env p w] r by simp_all
  show "registrar (snd (tsTry env p w)) = registrar w"
    using r w1 requireModule_facts(3) [of env p w1]
    by (simp add: tsTry_def split: sum.splits)
  show "calls (snd (tsTry env p w)) = calls w @ [CallRequire p] \<or>
        calls (snd (tsTry env p w)) = calls w @ [CallRequire p, CallRequire p]"
    using r w1 requireModule_facts(2) [of env p w1]
    by (simp add: tsTry_def split: sum.splits)
qed

lemma tryBlock_frame:
  assumes "tryBlock env p w = (r, w1)"
  shows "registrar w1 = registrar w"
    and "\<exists>n\<in>{1, 2}. calls w1 = calls w @ replicate n (CallRequire p)"
proof -
  have w1: "w1 = snd (tryBlock env p w)"
    using assms by simp
  show "registrar w1 = registrar w"
    unfolding w1 tryBlock_def
    by (simp add: tsTry_frame(1) requireModule_facts(3))
  have "calls w1 = calls w @ [CallRequire p] \<or> calls w1 = calls w @ [CallRequire p, CallRequire p]"
    unfolding w1 tryBlock_def
    using tsTry_frame(2) [of env p w] by (simp add: requireModule_facts(2))
  then show "\<exists>n\<in>{1, 2}. calls w1 = calls w @ replicate n (CallRequire p)"
    by (auto simp: numeral_2_eq_2)
qed

text \<open>
  Outside the two marked extensions, the body of \<^verbatim>\<open>loadModule\<close> is: start the \<^verbatim>\<open>try\<close>
  block in its world, hand a thrown value to the \<^verbatim>\<open>catch\<close> block, and close with
  \<^verbatim>\<open>finally\<close>.
\<close>

lemma loadModuleBody_try_catch:
  assumes "extname env p \<noteq> ''.mjs''" and "extname env p \<noteq> ''.cjs''"
  shows "loadModuleBody env p cfg w =
     (case tryBlock env p (tryWorld env p cfg w) of
        (Inl e, w1) \<Rightarrow>
          (fst (catchRequire env p e w1), closeBranch env p cfg w (snd (catchRequire env p e w1)))
      | (Inr v, w1) \<Rightarrow> (Inr v, closeBranch env p cfg w w1))"
  using assms
  by (auto simp: loadModuleBody_def tsBranch_def tsTryCatch_def defaultBranch_def tryBlock_def
      tryWorld_def closeBranch_def Let_def split: prod.splits sum.splits)

lemma closeBranch_calls:
  "calls (closeBranch env p cfg w w2) = calls w2 @ finallyCalls env p"
  by (simp add: closeBranch_def finallyCalls_def)

lemma loadModuleBody_on_throw:
  assumes "extname env p \<noteq> ''.mjs''" and "extname env p \<noteq> ''.cjs''"
    and "tryBlock env p (tryWorld env p cfg w) = (Inl e, w1)"
  shows "loadModuleBody env p cfg w =
     (fst (catchRequire env p e w1), closeBranch env p cfg w (snd (catchRequire env p e w1)))"
  using assms(3) by (simp add: loadModuleBody_try_catch [OF assms(1,2)])

lemma loadModuleBody_on_return:
  assumes "extname env p \<noteq> ''.mjs''" and "extname env p \<noteq> ''.cjs''"
    and "tryBlock env p (tryWorld env p cfg w) = (Inr v, w1)"
  shows "loadModuleBody env p cfg w = (Inr v, closeBranch env p cfg w w1)"
  using assms(3) by (simp add: loadModuleBody_try_catch [OF assms(1,2)])

text \<open>The resolution of the promise makes no call of the loader and leaves the registrar.\<close>

lemma resolvePromise_facts:
  "calls (snd (resolvePromise env v w)) = calls w"
  "registrar (snd (resolvePromise env v w)) = registrar w"
  "\<not> isThenable v \<Longrightarrow> resolvePromise env v w = (Inr v, w)"
  "isThenable v \<Longrightarrow>
     fst (resolvePromise env v w) = fst (thenSettles env v (registrar w) (modules w))"
  by (simp_all add: resolvePromise_def split: prod.splits)

lemma asyncReturn_facts:
  "calls (snd (asyncReturn env rw)) = calls (snd rw)"
  "registrar (snd (asyncReturn env rw)) = registrar (snd rw)"
  "asyncReturn env (Inl e, w) = (Inl e, w)"
  "asyncReturn env (Inr v, w) = resolvePromise env v w"
  by (simp_all add: asyncReturn_def resolvePromise_facts split: prod.splits sum.splits)

lemma loadModule_frame:
  "calls (snd (loadModule env p cfg w)) = calls (snd (loadModuleBody env p cfg w))"
  "registrar (snd (loadModule env p cfg w)) = registrar (snd (loadModuleBody env p cfg w))"
  by (simp_all add: loadModule_def asyncReturn_facts)

lemma loadModule_rejects:
  assumes "loadModuleBody env p cfg w = (Inl e, w')"
  shows "loadModule env p cfg w = (Inl e, w')"
  using assms by (simp add: loadModule_def asyncReturn_facts)

lemma loadModule_resolves:
  assumes "loadModuleBody env p cfg w = (Inr v, w')"
  shows "loadModule env p cfg w = resolvePromise env v w'"
  using assms by (simp add: loadModule_def asyncReturn_facts)

lemma sample_thenable:
  "isThenable sample_promise" "\<not> isThenable (JObj [(''port'', JNum 1)])"
  by (simp_all add: isThenable_def sample_promise_def propOf_def)

lemma loadModule_settles:
  "fst (loadModuleBody env p cfg w) = Inl e \<Longrightarrow>
     loadModule env p cfg w = (Inl e, snd (loadModuleBody env p cfg w))"
  "fst (loadModuleBody env p cfg w) = Inr v \<Longrightarrow>
     loadModule env p cfg w = resolvePromise env v (snd (loadModuleBody env p cfg w))"
  by (cases "loadModuleBody env p cfg w"; simp add: loadModule_def asyncReturn_facts)+



section \<open>The marked extensions\<close>




text \<open>
  The match is by string equality, so it is case-sensitive: an extension \<^verbatim>\<open>.MJS\<close> is
  none of the three literals and takes the \<^verbatim>\<open>default:\<close> case.
\<close>

lemma loadModuleBody_MJS_is_default:
  "extname env p = ''.MJS'' \<Longrightarrow> loadModuleBody env p cfg w = defaultBranch env p w"
  by (simp add: loadModuleBody_def Let_def)

text \<open>
  C7, as amended. For a path whose extension is \<^verbatim>\<open>.cjs\<close>, the only call is the one
  \<^verbatim>\<open>require\<close>, and the registrar is not touched. When \<^verbatim>\<open>require\<close> throws, the call rejects
  with the thrown value: there is no fallback. When it returns a value, the call
  resolves its promise with exactly that value, no \<^verbatim>\<open>default\<close> field being read: the
  promise is fulfilled with the value when the value is not a thenable, and follows the
  value when it is one.
\<close>

theorem loadModule_cjs:
  assumes "extname env p = ''.cjs''"
  shows "(\<forall>e. fst (require env p (registrar w) (modules w)) = Inl e \<longrightarrow>
              fst (loadModule env p cfg w) = Inl e) \<and>
         (\<forall>v. fst (require env p (registrar w) (modules w)) = Inr v \<longrightarrow>
              loadModule env p cfg w = resolvePromise env v (snd (requireModule env p w)) \<and>
              (\<not> isThenable v \<longrightarrow> fst (loadModule env p cfg w) = Inr v)) \<and>
         calls (snd (loadModule env p cfg w)) = calls w @ [CallRequire p] \<and>
         registrar (snd (loadModule env p cfg w)) = registrar w"
proof -
  have body: "loadModuleBody env p cfg w = requireModule env p w"
    using assms by (simp add: loadModuleBody_def Let_def)
  have c: "calls (snd (loadModule env p cfg w)) = calls w @ [CallRequire p]"
    "registrar (snd (loadModule env p cfg w)) = registrar w"
    by (simp_all add: loadModule_frame body requireModule_facts)
  have l: "fst (loadModule env p cfg w) = Inl e"
    if "fst (require env p (registrar w) (modules w)) = Inl e" for e
    using loadModule_settles(1) [of env p cfg w e] that body by (simp add: requireModule_facts(1))
  have r: "loadModule env p cfg w = resolvePromise env v (snd (requireModule env p w))"
    if "fst (require env p (registrar w) (modules w)) = Inr v" for v
    using loadModule_settles(2) [of env p cfg w v] that body by (simp add: requireModule_facts(1))
  show ?thesis
    using c l r by (simp add: resolvePromise_facts(3))
qed

theorem loadModule_cjs_witness:
  "extname sample_env ''plugin.cjs'' = ''.cjs'' \<and>
   fst (require sample_env ''plugin.cjs'' (registrar w0) (modules w0)) =
     Inr (JObj [(''default'', JNum 5)]) \<and>
   \<not> isThenable (JObj [(''default'', JNum 5)]) \<and>
   fst (loadModule sample_env ''plugin.cjs'' ''tsconfig.json'' w0) =
     Inr (JObj [(''default'', JNum 5)]) \<and>
   calls (snd (loadModule sample_env ''plugin.cjs'' ''tsconfig.json'' w0)) =
     calls w0 @ [CallRequire ''plugin.cjs'']"
proof -
  have ext: "extname sample_env ''plugin.cjs'' = ''.cjs''"
    by (simp add: sample_defs)
  have req: "fst (require sample_env ''plugin.cjs'' (registrar w0) (modules w0)) =
      Inr (JObj [(''default'', JNum 5)])"
    by (simp add: sample_defs)
  have nt: "\<not> isThenable (JObj [(''default'', JNum 5)])"
    by (simp add: isThenable_def propOf_def)
  note t = loadModule_cjs [OF ext, of w0 "''tsconfig.json''"]
  have a: "fst (loadModule sample_env ''plugin.cjs'' ''tsconfig.json'' w0) =
      Inr (JObj [(''default'', JNum 5)])"
    using t req nt by blast
  have b: "calls (snd (loadModule sample_env ''plugin.cjs'' ''tsconfig.json'' w0)) =
      calls w0 @ [CallRequire ''plugin.cjs'']"
    using t by blast
  show ?thesis
    using ext req nt a b by (simp only: simp_thms)
qed

text \<open>
  The claim as the specification states it fails when the module value is a thenable, as
  \<^verbatim>\<open>module.exports = { then(resolve) { resolve({port: 1}) } }\<close> gives: the promise of the
  call follows it and is fulfilled with the object, not with the value that \<^verbatim>\<open>require\<close>
  produced.
\<close>

theorem loadModule_cjs_thenable_counterexample:
  "extname sample_env ''later.cjs'' = ''.cjs'' \<and>
   fst (require sample_env ''later.cjs'' (registrar w0) (modules w0)) = Inr sample_promise \<and>
   fst (loadModule sample_env ''later.cjs'' ''tsconfig.json'' w0) = Inr (JObj [(''port'', JNum 1)]) \<and>
   fst (loadModule sample_env ''later.cjs'' ''tsconfig.json'' w0) \<noteq> Inr sample_promise"
  by (simp add: sample_defs loader_defs)

section \<open>The registrar\<close>

lemma loadModuleBody_ts_frame:
  assumes "extname env p = ''.ts''"
  shows "registrar (snd (loadModuleBody env p cfg w)) =
           fst (registerTsProject env cfg (registrar w))
             (snd (registerTsProject env cfg (registrar w)))"
    and "\<exists>mid. calls (snd (loadModuleBody env p cfg w)) =
                  calls w @ [CallRegister cfg] @ mid @ [CallUnregister] \<and>
                set mid \<subseteq> {CallRequire p, CallImport (pathToFileURL env p)}"
proof -
  let ?w0 = "tryWorld env p cfg w"
  obtain r w1 where t: "tryBlock env p ?w0 = (r, w1)"
    by (cases "tryBlock env p ?w0")
  have reg1: "registrar w1 = registrar ?w0"
    by (rule tryBlock_frame(1) [OF t])
  obtain n where n: "calls w1 = calls ?w0 @ replicate n (CallRequire p)"
    using tryBlock_frame(2) [OF t] by blast
  have w0: "registrar ?w0 = snd (registerTsProject env cfg (registrar w))"
    "calls ?w0 = calls w @ [CallRegister cfg]"
    using assms by (simp_all add: tryWorld_def)
  have ne: "extname env p \<noteq> ''.mjs''" "extname env p \<noteq> ''.cjs''"
    using assms by simp_all
  have "registrar (snd (loadModuleBody env p cfg w)) =
           fst (registerTsProject env cfg (registrar w))
             (snd (registerTsProject env cfg (registrar w))) \<and>
        (\<exists>mid. calls (snd (loadModuleBody env p cfg w)) =
                  calls w @ [CallRegister cfg] @ mid @ [CallUnregister] \<and>
                set mid \<subseteq> {CallRequire p, CallImport (pathToFileURL env p)})"
  proof (cases r)
    case (Inr v)
    have "snd (loadModuleBody env p cfg w) = closeBranch env p cfg w w1"
      using t Inr by (simp add: loadModuleBody_try_catch [OF ne])
    then have "registrar (snd (loadModuleBody env p cfg w)) =
                 fst (registerTsProject env cfg (registrar w)) (registrar w1)"
      and "calls (snd (loadModuleBody env p cfg w)) =
             calls w @ [CallRegister cfg] @ replicate n (CallRequire p) @ [CallUnregister]"
      using assms n w0 by (simp_all add: closeBranch_def)
    then show ?thesis
      using reg1 w0 by auto
  next
    case (Inl e)
    let ?w2 = "snd (catchRequire env p e w1)"
    have "snd (loadModuleBody env p cfg w) = closeBranch env p cfg w ?w2"
      using t Inl by (simp add: loadModuleBody_try_catch [OF ne])
    then have fin: "registrar (snd (loadModuleBody env p cfg w)) =
                 fst (registerTsProject env cfg (registrar w)) (registrar ?w2)"
      "calls (snd (loadModuleBody env p cfg w)) = calls ?w2 @ [CallUnregister]"
      using assms by (simp_all add: closeBranch_def)
    have reg2: "registrar ?w2 = registrar w1"
      by (rule catchRequire_frame(1))
    have "calls ?w2 = calls w @ [CallRegister cfg] @ replicate n (CallRequire p) @ [] \<or>
          calls ?w2 = calls w @ [CallRegister cfg] @ replicate n (CallRequire p) @
                        [CallImport (pathToFileURL env p)]"
      using catchRequire_frame(2) [of env p e w1] n w0 by simp
    then have "\<exists>mid. calls ?w2 = calls w @ [CallRegister cfg] @ mid \<and>
                 set mid \<subseteq> {CallRequire p, CallImport (pathToFileURL env p)}"
      by (elim disjE) (rule exI, rule conjI, assumption, auto)+
    then show ?thesis
      using fin reg2 reg1 w0 by auto
  qed
  then show "registrar (snd (loadModuleBody env p cfg w)) =
           fst (registerTsProject env cfg (registrar w))
             (snd (registerTsProject env cfg (registrar w)))"
    and "\<exists>mid. calls (snd (loadModuleBody env p cfg w)) =
                  calls w @ [CallRegister cfg] @ mid @ [CallUnregister] \<and>
                set mid \<subseteq> {CallRequire p, CallImport (pathToFileURL env p)}"
    by blast+
qed

lemma loadModuleBody_other_frame:
  assumes "extname env p \<noteq> ''.ts''"
  shows "registrar (snd (loadModuleBody env p cfg w)) = registrar w"
    and "\<exists>new. calls (snd (loadModuleBody env p cfg w)) = calls w @ new \<and>
                set new \<subseteq> {CallRequire p, CallImport (pathToFileURL env p)}"
proof -
  consider (mjs) "extname env p = ''.mjs''" | (cjs) "extname env p = ''.cjs''"
    | (other) "extname env p \<noteq> ''.mjs''" "extname env p \<noteq> ''.cjs''"
    by blast
  then have "registrar (snd (loadModuleBody env p cfg w)) = registrar w \<and>
         (\<exists>new. calls (snd (loadModuleBody env p cfg w)) = calls w @ new \<and>
                set new \<subseteq> {CallRequire p, CallImport (pathToFileURL env p)})"
  proof cases
    case mjs
    then show ?thesis
      by (simp add: loadModuleBody_def Let_def esmDefault_facts)
  next
    case cjs
    then show ?thesis
      by (simp add: loadModuleBody_def Let_def requireModule_facts)
  next
    case other
    let ?w1 = "snd (requireModule env p w)"
    have lm: "loadModuleBody env p cfg w = defaultBranch env p w"
      using other assms by (simp add: loadModuleBody_def Let_def)
    have w1: "registrar ?w1 = registrar w" "calls ?w1 = calls w @ [CallRequire p]"
      by (simp_all add: requireModule_facts)
    show ?thesis
    proof (cases "fst (requireModule env p w)")
      case (Inr v)
      then have "snd (defaultBranch env p w) = ?w1"
        by (auto simp: defaultBranch_def split: prod.splits)
      then show ?thesis
        using lm w1 by simp
    next
      case (Inl e)
      then have "snd (defaultBranch env p w) = snd (catchRequire env p e ?w1)"
        by (auto simp: defaultBranch_def split: prod.splits)
      then show ?thesis
        using lm w1 catchRequire_frame [of env p e ?w1] by auto
    qed
  qed
  then show "registrar (snd (loadModuleBody env p cfg w)) = registrar w"
    and "\<exists>new. calls (snd (loadModuleBody env p cfg w)) = calls w @ new \<and>
                set new \<subseteq> {CallRequire p, CallImport (pathToFileURL env p)}"
    by blast+
qed

text \<open>
  C2. For a path whose extension is \<^verbatim>\<open>.ts\<close>, whatever the completion of the call
  (a returned value, the value of the ESM fallback, or a thrown value), the function
  returned by \<^verbatim>\<open>registerTsProject(tsConfig)\<close> has been applied when the call ends: the
  loader's calls are the registration, then only loads of this module, then the
  deregistration as the last call, and the registrar is left in the state the
  deregistration produces from the registered one. So where that function undoes its
  registration, the registrar is back in the state it had before the call.
\<close>

theorem loadModule_ts_unregisters:
  assumes "extname env p = ''.ts''"
  shows "registrar (snd (loadModule env p cfg w)) =
           fst (registerTsProject env cfg (registrar w))
             (snd (registerTsProject env cfg (registrar w))) \<and>
         (\<exists>mid. calls (snd (loadModule env p cfg w)) =
                  calls w @ [CallRegister cfg] @ mid @ [CallUnregister] \<and>
                set mid \<subseteq> {CallRequire p, CallImport (pathToFileURL env p)}) \<and>
         (fst (registerTsProject env cfg (registrar w))
            (snd (registerTsProject env cfg (registrar w))) = registrar w \<longrightarrow>
          registrar (snd (loadModule env p cfg w)) = registrar w)"
  using loadModuleBody_ts_frame [OF assms, of cfg w]
  by (simp add: loadModule_frame)

theorem loadModule_ts_unregisters_witness:
  "extname sample_env ''app.config.ts'' = ''.ts'' \<and>
   extname sample_env ''esm.ts'' = ''.ts'' \<and>
   extname sample_env ''missing.ts'' = ''.ts'' \<and>
   registrar (snd (loadModule sample_env ''app.config.ts'' ''tsconfig.json'' w0)) = [] \<and>
   registrar (snd (loadModule sample_env ''esm.ts'' ''tsconfig.json'' w0)) = [] \<and>
   registrar (snd (loadModule sample_env ''missing.ts'' ''tsconfig.json'' w0)) = []"
proof -
  have e1: "extname sample_env ''app.config.ts'' = ''.ts''"
    and e2: "extname sample_env ''esm.ts'' = ''.ts''"
    and e3: "extname sample_env ''missing.ts'' = ''.ts''"
    by (simp_all add: sample_defs)
  have undo: "fst (registerTsProject sample_env ''tsconfig.json'' (registrar w0))
                (snd (registerTsProject sample_env ''tsconfig.json'' (registrar w0))) = registrar w0"
    by (simp add: sample_defs)
  have w0: "registrar w0 = []"
    by (simp add: w0_def)
  show ?thesis
    using e1 e2 e3 undo w0
      loadModule_ts_unregisters [OF e1, of "''tsconfig.json''" w0]
      loadModule_ts_unregisters [OF e2, of "''tsconfig.json''" w0]
      loadModule_ts_unregisters [OF e3, of "''tsconfig.json''" w0]
    by simp
qed

text \<open>
  C9. For a path whose extension is not \<^verbatim>\<open>.ts\<close> (\<^verbatim>\<open>.mjs\<close>, \<^verbatim>\<open>.cjs\<close> or anything
  else), the loader makes no call to \<^verbatim>\<open>registerTsProject\<close> or to a deregistration (its
  calls are loads of this module only), the registrar's state after the call is the
  state before it, and the \<^verbatim>\<open>tsConfig\<close> argument has no influence on the completion or
  on the final world.
\<close>

theorem loadModule_registrar_untouched:
  assumes "extname env p \<noteq> ''.ts''"
  shows "registrar (snd (loadModule env p cfg w)) = registrar w \<and>
         (\<exists>new. calls (snd (loadModule env p cfg w)) = calls w @ new \<and>
                set new \<subseteq> {CallRequire p, CallImport (pathToFileURL env p)}) \<and>
         loadModule env p cfg w = loadModule env p cfg' w"
proof -
  have same: "loadModule env p cfg w = loadModule env p cfg' w"
    using assms by (simp add: loadModule_def loadModuleBody_def Let_def)
  have frame: "registrar (snd (loadModule env p cfg w)) = registrar w \<and>
         (\<exists>new. calls (snd (loadModule env p cfg w)) = calls w @ new \<and>
                set new \<subseteq> {CallRequire p, CallImport (pathToFileURL env p)})"
    using loadModuleBody_other_frame [OF assms, of cfg w]
    by (simp add: loadModule_frame)
  show ?thesis
    using frame same by (simp only: simp_thms)
qed

theorem loadModule_registrar_untouched_witness:
  "extname sample_env ''esm.js'' \<noteq> ''.ts'' \<and>
   registrar (snd (loadModule sample_env ''esm.js'' ''tsconfig.json'' (w0\<lparr>registrar := [''outer.json'']\<rparr>))) =
     [''outer.json''] \<and>
   loadModule sample_env ''esm.js'' ''tsconfig.json'' (w0\<lparr>registrar := [''outer.json'']\<rparr>) =
     loadModule sample_env ''esm.js'' ''other.json'' (w0\<lparr>registrar := [''outer.json'']\<rparr>)"
proof -
  let ?w = "w0\<lparr>registrar := [''outer.json'']\<rparr>"
  have ext: "extname sample_env ''esm.js'' \<noteq> ''.ts''"
    by (simp add: sample_defs)
  note t = loadModule_registrar_untouched [OF ext, of "''tsconfig.json''" ?w "''other.json''"]
  have "registrar (snd (loadModule sample_env ''esm.js'' ''tsconfig.json'' ?w)) = registrar ?w"
    using t by blast
  moreover have "registrar ?w = [''outer.json'']"
    by simp
  moreover have "loadModule sample_env ''esm.js'' ''tsconfig.json'' ?w =
      loadModule sample_env ''esm.js'' ''other.json'' ?w"
    using t by blast
  ultimately show ?thesis
    using ext by (simp only: simp_thms)
qed

section \<open>The synchronous load and its failures\<close>

text \<open>
  In the statements below the synchronous load of a branch is its \<^verbatim>\<open>try\<close> block, run in
  the world \<open>tryWorld\<close>: \<^verbatim>\<open>require(modulePath)\<close> in the \<^verbatim>\<open>default:\<close> case,
  \<^verbatim>\<open>require(modulePath).default || require(modulePath)\<close> in the \<^verbatim>\<open>.ts\<close> case. It throws
  \<open>e\<close> and leaves the world \<open>w1\<close>.
\<close>

lemma tryBlock_single_require:
  assumes "tryBlock env p w = (Inl e, w1)"
  shows "extname env p \<noteq> ''.ts'' \<Longrightarrow> calls w1 = calls w @ [CallRequire p]"
    and "fst (requireModule env p w) = Inl e' \<Longrightarrow> calls w1 = calls w @ [CallRequire p]"
proof -
  have w1: "w1 = snd (tryBlock env p w)"
    using assms by simp
  show "calls w1 = calls w @ [CallRequire p]" if "extname env p \<noteq> ''.ts''"
    using that by (simp add: w1 tryBlock_def requireModule_facts(2))
  show "calls w1 = calls w @ [CallRequire p]" if "fst (requireModule env p w) = Inl e'"
  proof -
    obtain r w2 where r: "requireModule env p w = (r, w2)"
      by (cases "requireModule env p w")
    have "r = Inl e'" and "calls w2 = calls w @ [CallRequire p]"
      using that r requireModule_facts(2) [of env p w] by simp_all
    then show ?thesis
      using r by (simp add: w1 tryBlock_def tsTry_def)
  qed
qed

text \<open>
  C4, as amended. In the \<^verbatim>\<open>.ts\<close> and \<^verbatim>\<open>default:\<close> cases, when the synchronous load throws
  a value other than \<^verbatim>\<open>null\<close> and \<^verbatim>\<open>undefined\<close> whose code is not \<^verbatim>\<open>ERR_REQUIRE_ESM\<close>,
  the call rejects with that same value and nothing is called after the failed load but
  the deregistration of the \<^verbatim>\<open>.ts\<close> case: no import and no further \<^verbatim>\<open>require\<close>. When the
  code is \<^verbatim>\<open>ERR_REQUIRE_ESM\<close>, exactly one dynamic import follows the failed load. When
  the thrown value is \<^verbatim>\<open>null\<close> or \<^verbatim>\<open>undefined\<close>, the read of its code throws and the call
  rejects with that \<^verbatim>\<open>TypeError\<close>. The failed load itself is a single \<^verbatim>\<open>require\<close> call
  in the \<^verbatim>\<open>default:\<close> case, and in the \<^verbatim>\<open>.ts\<close> case whenever the first \<^verbatim>\<open>require\<close> is the
  one that throws.
\<close>

theorem loadModule_rethrows_unchanged:
  assumes "extname env p \<noteq> ''.mjs''" and "extname env p \<noteq> ''.cjs''"
    and "tryBlock env p (tryWorld env p cfg w) = (Inl e, w1)"
  shows "(\<forall>c. getField ''code'' e = Inr c \<and> c \<noteq> JStr ''ERR_REQUIRE_ESM'' \<longrightarrow>
              loadModule env p cfg w = (Inl e, closeBranch env p cfg w w1) \<and>
              calls (snd (loadModule env p cfg w)) = calls w1 @ finallyCalls env p) \<and>
         (getField ''code'' e = Inr (JStr ''ERR_REQUIRE_ESM'') \<longrightarrow>
              calls (snd (loadModule env p cfg w)) =
                calls w1 @ [CallImport (pathToFileURL env p)] @ finallyCalls env p) \<and>
         (\<forall>t. getField ''code'' e = Inl t \<longrightarrow>
              loadModule env p cfg w = (Inl t, closeBranch env p cfg w w1) \<and>
              calls (snd (loadModule env p cfg w)) = calls w1 @ finallyCalls env p) \<and>
         (extname env p \<noteq> ''.ts'' \<longrightarrow> calls w1 = calls w @ [CallRequire p]) \<and>
         (\<forall>e'. fst (requireModule env p (tryWorld env p cfg w)) = Inl e' \<longrightarrow>
              calls w1 = calls (tryWorld env p cfg w) @ [CallRequire p])"
proof -
  note body = loadModuleBody_on_throw [OF assms(1,2,3)]
  have a: "loadModule env p cfg w = (Inl e, closeBranch env p cfg w w1) \<and>
      calls (snd (loadModule env p cfg w)) = calls w1 @ finallyCalls env p"
    if "getField ''code'' e = Inr c" "c \<noteq> JStr ''ERR_REQUIRE_ESM''" for c
  proof -
    have "catchRequire env p e w1 = (Inl e, w1)"
      by (rule catchRequire_rethrow [OF that])
    then have "loadModuleBody env p cfg w = (Inl e, closeBranch env p cfg w w1)"
      by (simp add: body)
    then have "loadModule env p cfg w = (Inl e, closeBranch env p cfg w w1)"
      by (rule loadModule_rejects)
    then show ?thesis
      by (simp add: closeBranch_calls)
  qed
  have b: "calls (snd (loadModule env p cfg w)) =
      calls w1 @ [CallImport (pathToFileURL env p)] @ finallyCalls env p"
    if "getField ''code'' e = Inr (JStr ''ERR_REQUIRE_ESM'')"
    by (simp add: loadModule_frame(1) body catchRequire_fallback [OF that] closeBranch_calls
        esmDefault_facts(2))
  have c: "loadModule env p cfg w = (Inl t, closeBranch env p cfg w w1) \<and>
      calls (snd (loadModule env p cfg w)) = calls w1 @ finallyCalls env p"
    if "getField ''code'' e = Inl t" for t
  proof -
    have "catchRequire env p e w1 = (Inl t, w1)"
      using that by (simp add: catchRequire_def)
    then have "loadModuleBody env p cfg w = (Inl t, closeBranch env p cfg w w1)"
      by (simp add: body)
    then have "loadModule env p cfg w = (Inl t, closeBranch env p cfg w w1)"
      by (rule loadModule_rejects)
    then show ?thesis
      by (simp add: closeBranch_calls)
  qed
  have d: "calls w1 = calls w @ [CallRequire p]" if "extname env p \<noteq> ''.ts''"
    using tryBlock_single_require(1) [OF assms(3) that] that by (simp add: tryWorld_def)
  have f: "calls w1 = calls (tryWorld env p cfg w) @ [CallRequire p]"
    if "fst (requireModule env p (tryWorld env p cfg w)) = Inl e'" for e'
    by (rule tryBlock_single_require(2) [OF assms(3) that])
  show ?thesis
    using a b c d f by blast
qed

theorem loadModule_rethrows_unchanged_witness:
  "extname sample_env ''missing.ts'' \<noteq> ''.mjs'' \<and> extname sample_env ''missing.ts'' \<noteq> ''.cjs'' \<and>
   getField ''code'' (errorWithCode ''MODULE_NOT_FOUND'') = Inr (JStr ''MODULE_NOT_FOUND'') \<and>
   JStr ''MODULE_NOT_FOUND'' \<noteq> JStr ''ERR_REQUIRE_ESM'' \<and>
   fst (tryBlock sample_env ''missing.ts'' (tryWorld sample_env ''missing.ts'' ''tsconfig.json'' w0)) =
     Inl (errorWithCode ''MODULE_NOT_FOUND'') \<and>
   fst (loadModule sample_env ''missing.ts'' ''tsconfig.json'' w0) =
     Inl (errorWithCode ''MODULE_NOT_FOUND'') \<and>
   calls (snd (loadModule sample_env ''missing.ts'' ''tsconfig.json'' w0)) =
     [CallRegister ''tsconfig.json'', CallRequire ''missing.ts'', CallUnregister] \<and>
   fst (loadModule sample_env ''missing.js'' ''tsconfig.json'' w0) =
     Inl (errorWithCode ''MODULE_NOT_FOUND'') \<and>
   calls (snd (loadModule sample_env ''missing.js'' ''tsconfig.json'' w0)) =
     [CallRequire ''missing.js''] \<and>
   calls (snd (loadModule sample_env ''esm.js'' ''tsconfig.json'' w0)) =
     [CallRequire ''esm.js'', CallImport ''file:///esm.js''] \<and>
   fst (loadModule sample_env ''null.js'' ''tsconfig.json'' w0) = Inl typeError"
proof -
  let ?wts = "\<lparr>calls = [CallRegister ''tsconfig.json'', CallRequire ''missing.ts''],
               registrar = [''tsconfig.json''], modules = 1::nat\<rparr>"
  let ?wjs = "\<lparr>calls = [CallRequire ''missing.js''], registrar = []::string list, modules = 1::nat\<rparr>"
  let ?wesm = "\<lparr>calls = [CallRequire ''esm.js''], registrar = []::string list, modules = 1::nat\<rparr>"
  let ?wnull = "\<lparr>calls = [CallRequire ''null.js''], registrar = []::string list, modules = 1::nat\<rparr>"
  have ts: "extname sample_env ''missing.ts'' \<noteq> ''.mjs''" "extname sample_env ''missing.ts'' \<noteq> ''.cjs''"
    and js: "extname sample_env ''missing.js'' \<noteq> ''.mjs''" "extname sample_env ''missing.js'' \<noteq> ''.cjs''"
    and esm: "extname sample_env ''esm.js'' \<noteq> ''.mjs''" "extname sample_env ''esm.js'' \<noteq> ''.cjs''"
    and nul: "extname sample_env ''null.js'' \<noteq> ''.mjs''" "extname sample_env ''null.js'' \<noteq> ''.cjs''"
    by (simp_all add: sample_defs)
  have tts: "tryBlock sample_env ''missing.ts'' (tryWorld sample_env ''missing.ts'' ''tsconfig.json'' w0) =
      (Inl (errorWithCode ''MODULE_NOT_FOUND''), ?wts)"
    by (simp add: sample_defs loader_defs)
  have tjs: "tryBlock sample_env ''missing.js'' (tryWorld sample_env ''missing.js'' ''tsconfig.json'' w0) =
      (Inl (errorWithCode ''MODULE_NOT_FOUND''), ?wjs)"
    by (simp add: sample_defs loader_defs)
  have tesm: "tryBlock sample_env ''esm.js'' (tryWorld sample_env ''esm.js'' ''tsconfig.json'' w0) =
      (Inl (errorWithCode ''ERR_REQUIRE_ESM''), ?wesm)"
    by (simp add: sample_defs loader_defs)
  have tnull: "tryBlock sample_env ''null.js'' (tryWorld sample_env ''null.js'' ''tsconfig.json'' w0) =
      (Inl JNull, ?wnull)"
    by (simp add: sample_defs loader_defs)
  have code: "getField ''code'' (errorWithCode ''MODULE_NOT_FOUND'') = Inr (JStr ''MODULE_NOT_FOUND'')"
    and ecode: "getField ''code'' (errorWithCode ''ERR_REQUIRE_ESM'') = Inr (JStr ''ERR_REQUIRE_ESM'')"
    and ncode: "getField ''code'' JNull = Inl typeError"
    by (simp_all add: errorWithCode_def propOf_def)
  have neq: "JStr ''MODULE_NOT_FOUND'' \<noteq> JStr ''ERR_REQUIRE_ESM''"
    by simp
  have fts: "finallyCalls sample_env ''missing.ts'' = [CallUnregister]"
    and fjs: "finallyCalls sample_env ''missing.js'' = []"
    and fesm: "finallyCalls sample_env ''esm.js'' = []"
    and url: "pathToFileURL sample_env ''esm.js'' = ''file:///esm.js''"
    by (simp_all add: finallyCalls_def sample_defs)
  have a: "loadModule sample_env ''missing.ts'' ''tsconfig.json'' w0 =
        (Inl (errorWithCode ''MODULE_NOT_FOUND''),
         closeBranch sample_env ''missing.ts'' ''tsconfig.json'' w0 ?wts) \<and>
      calls (snd (loadModule sample_env ''missing.ts'' ''tsconfig.json'' w0)) =
        calls ?wts @ finallyCalls sample_env ''missing.ts''"
    using loadModule_rethrows_unchanged [OF ts tts] code neq by blast
  have b: "loadModule sample_env ''missing.js'' ''tsconfig.json'' w0 =
        (Inl (errorWithCode ''MODULE_NOT_FOUND''),
         closeBranch sample_env ''missing.js'' ''tsconfig.json'' w0 ?wjs) \<and>
      calls (snd (loadModule sample_env ''missing.js'' ''tsconfig.json'' w0)) =
        calls ?wjs @ finallyCalls sample_env ''missing.js''"
    using loadModule_rethrows_unchanged [OF js tjs] code neq by blast
  have c: "calls (snd (loadModule sample_env ''esm.js'' ''tsconfig.json'' w0)) =
      calls ?wesm @ [CallImport (pathToFileURL sample_env ''esm.js'')] @
      finallyCalls sample_env ''esm.js''"
    using loadModule_rethrows_unchanged [OF esm tesm] ecode by blast
  have d: "loadModule sample_env ''null.js'' ''tsconfig.json'' w0 =
      (Inl typeError, closeBranch sample_env ''null.js'' ''tsconfig.json'' w0 ?wnull)"
    using loadModule_rethrows_unchanged [OF nul tnull] ncode by blast
  have f: "fst (tryBlock sample_env ''missing.ts'' (tryWorld sample_env ''missing.ts'' ''tsconfig.json'' w0)) =
      Inl (errorWithCode ''MODULE_NOT_FOUND'')"
    by (simp only: tts fst_conv)
  show ?thesis
    using ts code neq f a b c d by (simp add: closeBranch_calls fts fjs fesm url)
qed

text \<open>
  The claim as the specification states it fails for a module that throws \<^verbatim>\<open>null\<close>: the
  thrown value has no code, so its code is not \<^verbatim>\<open>ERR_REQUIRE_ESM\<close>, yet the call does not
  reject with it but with the \<^verbatim>\<open>TypeError\<close> of the read \<^verbatim>\<open>e.code\<close>.
\<close>

theorem loadModule_thrown_null_counterexample:
  "extname sample_env ''null.js'' \<noteq> ''.mjs'' \<and> extname sample_env ''null.js'' \<noteq> ''.cjs'' \<and>
   fst (requireModule sample_env ''null.js'' w0) = Inl JNull \<and>
   getField ''code'' JNull \<noteq> Inr (JStr ''ERR_REQUIRE_ESM'') \<and>
   fst (loadModule sample_env ''null.js'' ''tsconfig.json'' w0) = Inl typeError \<and>
   fst (loadModule sample_env ''null.js'' ''tsconfig.json'' w0) \<noteq> Inl JNull"
  by (simp add: sample_defs loader_defs)






section \<open>The default field of a TypeScript module\<close>

text \<open>
  C1, as amended. For a path whose extension is \<^verbatim>\<open>.ts\<close> and whose synchronous load
  returns a module value \<open>m\<close> other than \<^verbatim>\<open>null\<close> and \<^verbatim>\<open>undefined\<close>: when the \<^verbatim>\<open>default\<close>
  field of \<open>m\<close> is truthy, the call resolves its promise with that field's value; when
  the field is missing or falsy, the loader calls \<^verbatim>\<open>require\<close> a second time and the call
  resolves its promise with what that call returns, which is the raw module object \<open>m\<close>
  when the repeated load gives \<open>m\<close> again. A promise resolved with a value is fulfilled
  with it when the value is not a thenable, and follows the value when it is one.
\<close>

theorem loadModule_ts_truthy_default:
  assumes "extname env p = ''.ts''"
    and "requireModule env p (tryWorld env p cfg w) = (Inr m, w1)"
    and "getField ''default'' m = Inr d"
  shows "(truthy d \<longrightarrow>
            loadModule env p cfg w = resolvePromise env d (closeBranch env p cfg w w1) \<and>
            (\<not> isThenable d \<longrightarrow> fst (loadModule env p cfg w) = Inr d)) \<and>
         (\<not> truthy d \<longrightarrow>
            (\<forall>m'. fst (require env p (registrar w1) (modules w1)) = Inr m' \<longrightarrow>
                  loadModule env p cfg w =
                    resolvePromise env m' (closeBranch env p cfg w (snd (requireModule env p w1))) \<and>
                  (\<not> isThenable m' \<longrightarrow> fst (loadModule env p cfg w) = Inr m')))"
proof -
  have ne: "extname env p \<noteq> ''.mjs''" "extname env p \<noteq> ''.cjs''"
    using assms(1) by simp_all
  have tb: "tryBlock env p (tryWorld env p cfg w) =
      (if truthy d then (Inr d, w1) else requireModule env p w1)"
    using assms by (simp add: tryBlock_def tsTry_def)
  have a: "loadModule env p cfg w = resolvePromise env d (closeBranch env p cfg w w1)"
    if "truthy d"
  proof -
    have "tryBlock env p (tryWorld env p cfg w) = (Inr d, w1)"
      using tb that by simp
    then have "loadModuleBody env p cfg w = (Inr d, closeBranch env p cfg w w1)"
      by (rule loadModuleBody_on_return [OF ne])
    then show ?thesis
      by (rule loadModule_resolves)
  qed
  have b: "loadModule env p cfg w =
      resolvePromise env m' (closeBranch env p cfg w (snd (requireModule env p w1)))"
    if "\<not> truthy d" and "fst (require env p (registrar w1) (modules w1)) = Inr m'" for m'
  proof -
    have "tryBlock env p (tryWorld env p cfg w) = (Inr m', snd (requireModule env p w1))"
      using tb that requireModule_facts(1) [of env p w1]
      by (simp add: prod_eq_iff)
    then have "loadModuleBody env p cfg w =
        (Inr m', closeBranch env p cfg w (snd (requireModule env p w1)))"
      by (rule loadModuleBody_on_return [OF ne])
    then show ?thesis
      by (rule loadModule_resolves)
  qed
  show ?thesis
    using a b by (simp add: resolvePromise_facts(3))
qed

theorem loadModule_ts_truthy_default_witness:
  "extname sample_env ''app.config.ts'' = ''.ts'' \<and>
   truthy (JObj [(''port'', JNum 4200)]) \<and>
   \<not> isThenable (JObj [(''port'', JNum 4200)]) \<and>
   fst (loadModule sample_env ''app.config.ts'' ''tsconfig.json'' w0) =
     Inr (JObj [(''port'', JNum 4200)]) \<and>
   extname sample_env ''named.ts'' = ''.ts'' \<and>
   \<not> truthy JUndefined \<and>
   \<not> isThenable (JObj [(''blah'', JNum 1)]) \<and>
   fst (loadModule sample_env ''named.ts'' ''tsconfig.json'' w0) = Inr (JObj [(''blah'', JNum 1)])"
proof -
  let ?wa = "\<lparr>calls = [CallRegister ''tsconfig.json'', CallRequire ''app.config.ts''],
              registrar = [''tsconfig.json''], modules = 1::nat\<rparr>"
  let ?wn = "\<lparr>calls = [CallRegister ''tsconfig.json'', CallRequire ''named.ts''],
              registrar = [''tsconfig.json''], modules = 1::nat\<rparr>"
  have ea: "extname sample_env ''app.config.ts'' = ''.ts''"
    and en: "extname sample_env ''named.ts'' = ''.ts''"
    by (simp_all add: sample_defs)
  have ra: "requireModule sample_env ''app.config.ts''
              (tryWorld sample_env ''app.config.ts'' ''tsconfig.json'' w0) =
            (Inr (JObj [(''default'', JObj [(''port'', JNum 4200)])]), ?wa)"
    by (simp add: sample_defs loader_defs)
  have rn: "requireModule sample_env ''named.ts''
              (tryWorld sample_env ''named.ts'' ''tsconfig.json'' w0) =
            (Inr (JObj [(''blah'', JNum 1)]), ?wn)"
    by (simp add: sample_defs loader_defs)
  have da: "getField ''default'' (JObj [(''default'', JObj [(''port'', JNum 4200)])]) =
      Inr (JObj [(''port'', JNum 4200)])"
    by (simp add: propOf_def)
  have dn: "getField ''default'' (JObj [(''blah'', JNum 1)]) = Inr JUndefined"
    by (simp add: propOf_def)
  have again: "fst (require sample_env ''named.ts'' (registrar ?wn) (modules ?wn)) =
      Inr (JObj [(''blah'', JNum 1)])"
    by (simp add: sample_defs)
  have ta: "truthy (JObj [(''port'', JNum 4200)])" and tn: "\<not> truthy JUndefined"
    by simp_all
  have na: "\<not> isThenable (JObj [(''port'', JNum 4200)])"
    and nn: "\<not> isThenable (JObj [(''blah'', JNum 1)])"
    by (simp_all add: isThenable_def propOf_def)
  have a: "fst (loadModule sample_env ''app.config.ts'' ''tsconfig.json'' w0) =
     Inr (JObj [(''port'', JNum 4200)])"
    using loadModule_ts_truthy_default [OF ea ra da] ta na by blast
  have n: "fst (loadModule sample_env ''named.ts'' ''tsconfig.json'' w0) = Inr (JObj [(''blah'', JNum 1)])"
    using loadModule_ts_truthy_default [OF en rn dn] tn nn again by blast
  show ?thesis
    using ea en ta tn na nn a n by (simp only: simp_thms)
qed

text \<open>
  The claim as the specification states it fails for a module whose \<^verbatim>\<open>default\<close> field
  exists and is falsy, as \<^verbatim>\<open>export default 0\<close> gives: the synchronous load succeeds,
  the module object has the field, and the call is fulfilled with the module object, not
  with the field's value.
\<close>

theorem loadModule_ts_falsy_default_counterexample:
  "extname sample_env ''zero.ts'' = ''.ts'' \<and>
   fst (requireModule sample_env ''zero.ts'' (tryWorld sample_env ''zero.ts'' ''tsconfig.json'' w0)) =
     Inr (JObj [(''default'', JNum 0)]) \<and>
   map_of [(''default'', JNum 0)] ''default'' = Some (JNum 0) \<and>
   fst (loadModule sample_env ''zero.ts'' ''tsconfig.json'' w0) = Inr (JObj [(''default'', JNum 0)]) \<and>
   fst (loadModule sample_env ''zero.ts'' ''tsconfig.json'' w0) \<noteq> Inr (JNum 0)"
  by (simp add: sample_defs loader_defs)

section \<open>The default case against the TypeScript case\<close>

text \<open>
  C3, as amended. For a path whose extension is none of \<^verbatim>\<open>.mjs\<close>, \<^verbatim>\<open>.cjs\<close> and \<^verbatim>\<open>.ts\<close>:
  when the synchronous load throws, the call does exactly what the \<^verbatim>\<open>.ts\<close> case without
  its registration does (same settlement, same calls, same final world). When the
  synchronous load returns a module value, the call resolves its promise with that value
  as it is, reading no \<^verbatim>\<open>default\<close> field; the \<^verbatim>\<open>.ts\<close> case without its registration settles
  in the same way if the \<^verbatim>\<open>default\<close> field of the value is missing or falsy, the
  repeated load gives the same value, and the value is not a thenable.
\<close>

theorem loadModule_default_like_ts_on_failure:
  assumes "extname env p \<noteq> ''.mjs''" and "extname env p \<noteq> ''.cjs''" and "extname env p \<noteq> ''.ts''"
  shows "(\<forall>e. fst (requireModule env p w) = Inl e \<longrightarrow>
              loadModule env p cfg w = tsWithoutRegistration env p w) \<and>
         (\<forall>m. fst (requireModule env p w) = Inr m \<longrightarrow>
              loadModule env p cfg w = resolvePromise env m (snd (requireModule env p w)) \<and>
              (\<not> isThenable m \<longrightarrow> fst (loadModule env p cfg w) = Inr m)) \<and>
         (\<forall>m d. fst (requireModule env p w) = Inr m \<and> getField ''default'' m = Inr d \<and>
                \<not> truthy d \<and> fst (requireModule env p (snd (requireModule env p w))) = Inr m \<and>
                \<not> isThenable m \<longrightarrow>
              fst (tsWithoutRegistration env p w) = fst (loadModule env p cfg w))"
proof -
  have lm: "loadModuleBody env p cfg w = defaultBranch env p w"
    using assms by (simp add: loadModuleBody_def Let_def)
  obtain r w1 where r: "requireModule env p w = (r, w1)"
    by (cases "requireModule env p w")
  obtain r2 w2 where r2: "requireModule env p w1 = (r2, w2)"
    by (cases "requireModule env p w1")
  have a: "loadModule env p cfg w = tsWithoutRegistration env p w" if "r = Inl e" for e
    using that r by (simp add: loadModule_def lm tsWithoutRegistration_def defaultBranch_def
        tsTryCatch_def tsTry_def)
  have b: "loadModule env p cfg w = resolvePromise env m w1" if "r = Inr m" for m
    using that r by (simp add: loadModule_def lm defaultBranch_def asyncReturn_facts)
  have c: "fst (tsWithoutRegistration env p w) = Inr m"
    if "r = Inr m" "getField ''default'' m = Inr d" "\<not> truthy d" "r2 = Inr m" "\<not> isThenable m"
    for m d
    using that r r2
    by (simp add: tsWithoutRegistration_def tsTryCatch_def tsTry_def asyncReturn_facts
        resolvePromise_facts(3))
  show ?thesis
    using a b c r r2 by (auto simp: resolvePromise_facts(3))
qed

theorem loadModule_default_like_ts_on_failure_witness:
  "extname sample_env ''esm.js'' \<noteq> ''.mjs'' \<and> extname sample_env ''esm.js'' \<noteq> ''.cjs'' \<and>
   extname sample_env ''esm.js'' \<noteq> ''.ts'' \<and>
   fst (requireModule sample_env ''esm.js'' w0) = Inl (errorWithCode ''ERR_REQUIRE_ESM'') \<and>
   loadModule sample_env ''esm.js'' ''tsconfig.json'' w0 = tsWithoutRegistration sample_env ''esm.js'' w0 \<and>
   fst (requireModule sample_env ''plugin.js'' w0) = Inr (JObj [(''default'', JNum 5)]) \<and>
   \<not> isThenable (JObj [(''default'', JNum 5)]) \<and>
   fst (loadModule sample_env ''plugin.js'' ''tsconfig.json'' w0) = Inr (JObj [(''default'', JNum 5)])"
proof -
  have e: "extname sample_env ''esm.js'' \<noteq> ''.mjs''" "extname sample_env ''esm.js'' \<noteq> ''.cjs''"
      "extname sample_env ''esm.js'' \<noteq> ''.ts''"
    and g: "extname sample_env ''plugin.js'' \<noteq> ''.mjs''" "extname sample_env ''plugin.js'' \<noteq> ''.cjs''"
      "extname sample_env ''plugin.js'' \<noteq> ''.ts''"
    by (simp_all add: sample_defs)
  have re: "fst (requireModule sample_env ''esm.js'' w0) = Inl (errorWithCode ''ERR_REQUIRE_ESM'')"
    and rg: "fst (requireModule sample_env ''plugin.js'' w0) = Inr (JObj [(''default'', JNum 5)])"
    by (simp_all add: sample_defs requireModule_def)
  have nt: "\<not> isThenable (JObj [(''default'', JNum 5)])"
    by (simp add: isThenable_def propOf_def)
  have a: "loadModule sample_env ''esm.js'' ''tsconfig.json'' w0 =
      tsWithoutRegistration sample_env ''esm.js'' w0"
    using loadModule_default_like_ts_on_failure [OF e, of w0 "''tsconfig.json''"] re by blast
  have b: "fst (loadModule sample_env ''plugin.js'' ''tsconfig.json'' w0) =
      Inr (JObj [(''default'', JNum 5)])"
    using loadModule_default_like_ts_on_failure [OF g, of w0 "''tsconfig.json''"] rg nt by blast
  show ?thesis
    using e re rg nt a b by (simp only: simp_thms)
qed

text \<open>
  The claim as the specification states it fails for a module with a truthy \<^verbatim>\<open>default\<close>
  field: under an extension that is none of the three, the call is fulfilled with the
  module object, while the \<^verbatim>\<open>.ts\<close> case without its registration is fulfilled with the
  field.
\<close>

theorem loadModule_default_unlike_ts_counterexample:
  "extname sample_env ''plugin.js'' \<noteq> ''.mjs'' \<and> extname sample_env ''plugin.js'' \<noteq> ''.cjs'' \<and>
   extname sample_env ''plugin.js'' \<noteq> ''.ts'' \<and>
   fst (loadModule sample_env ''plugin.js'' ''tsconfig.json'' w0) = Inr (JObj [(''default'', JNum 5)]) \<and>
   fst (tsWithoutRegistration sample_env ''plugin.js'' w0) = Inr (JNum 5) \<and>
   fst (loadModule sample_env ''plugin.js'' ''tsconfig.json'' w0) \<noteq>
     fst (tsWithoutRegistration sample_env ''plugin.js'' w0)"
  by (simp add: sample_defs loader_defs)

section \<open>Loading twice\<close>





end
